theory Spec2Isabelle
  imports Complex_Main "HOL-Library.Monad_Syntax"
begin

section \<open>The extruder axis of Smoothieware (Extruder.cpp), embedded in HOL\<close>

text \<open>
  Conventions of the embedding.
  \<^item> A C++ \<open>float\<close> value is the real number it denotes. The arithmetic of the step count
    and of the fractional-step carry in \<open>on_block_begin\<close>, where rounding decides what the
    program does, is binary32 arithmetic: every operation yields the binary32 number
    nearest to its exact result. Elsewhere the operations are exact. Infinities and NaN
    are outside the model: an operation that would yield one has no result (\<open>None\<close>), and
    division by zero, which HOL defines as 0 and the hardware does not, is excluded by a
    hypothesis wherever a theorem depends on it.
  \<^item> \<open>abs\<close> applied to a \<open>float\<close> is the absolute value of that number.
  \<^item> A conversion from \<open>float\<close> to an integer type is defined by C++ only when the
    truncated value fits the type; the model returns \<open>None\<close> where it does not.
  \<^item> Calls into collaborators whose sources are not part of the module (conveyor, robot,
    shared block, output streams, pins) are recorded, in order, as a list of actions.
\<close>

subsection \<open>Constants of Extruder.h\<close>

text \<open>
  The macros \<open>MIN_ANGLE_LIMIT\<close>, \<open>MAX_ANGLE_LIMIT\<close>, \<open>DEGREE_OF_CYCLE\<close> and
  \<open>RAW_SEARCH_ANGLE\<close> are declared in Extruder.h, which is not among the sources; every
  function that uses them takes them as a parameter.
\<close>

record Extruder_h =
  MIN_ANGLE_LIMIT :: real
  MAX_ANGLE_LIMIT :: real
  DEGREE_OF_CYCLE :: real
  RAW_SEARCH_ANGLE :: real

text \<open>
  Modelled from the spec: the enumerators \<open>FIRST_CASE\<close> .. \<open>FOURTH_CASE\<close> are declared in
  Extruder.h. The spec lists the four candidate distances in this order and the source
  labels the four \<open>push_back\<close> calls with them in this order, the switch being on the index
  of the selected candidate; so they are the indices 0 .. 3.
\<close>

definition FIRST_CASE :: nat where "FIRST_CASE = 0"
definition SECOND_CASE :: nat where "SECOND_CASE = 1"
definition THIRD_CASE :: nat where "THIRD_CASE = 2"
definition FOURTH_CASE :: nat where "FOURTH_CASE = 3"

subsection \<open>Collaborators\<close>

datatype motion_mode = OFF | SOLO | FOLLOW

text \<open>
  Modelled from the spec: class Block is not among the sources. The module holds a pointer
  to the block it has claimed, calls \<open>take()\<close> and \<open>release()\<close> on it and reads its
  \<open>steps_event_count\<close>. A block is its address together with that field; \<open>take\<close> and
  \<open>release\<close> are recorded as actions on the address.
\<close>

record Block =
  block_addr :: nat
  steps_event_count :: nat

text \<open>
  Modelled from the spec: class StepperMotor is not among the sources. The spec gives its
  interface: move(direction, stepCount[, speed]), setSpeed(rate), getSpeed(), setMaxRate,
  getMaxRate, isMoving(), enable(bool). The record holds what the setters store and the
  getters read; a move of no steps leaves the motor idle (the flush of the speed-change
  handler stops the motor with one), a move of some steps sets it moving, and a move
  given a speed sets that speed first. The general theorems below hold whatever value
  \<open>moving\<close> has; only the evaluations of the scenarios read it.
\<close>

record StepperMotor =
  moving :: bool
  direction_bit :: bool
  steps_to_move :: nat
  steps_per_second :: real
  max_rate :: real
  moved_last_block :: bool
  motor_enabled :: bool

definition set_speed :: "real \<Rightarrow> StepperMotor \<Rightarrow> StepperMotor" where
  "set_speed r m = m\<lparr>steps_per_second := r\<rparr>"

definition move :: "bool \<Rightarrow> nat \<Rightarrow> StepperMotor \<Rightarrow> StepperMotor" where
  "move dir steps m = m\<lparr>direction_bit := dir, steps_to_move := steps, moving := (0 < steps)\<rparr>"

definition move_at :: "bool \<Rightarrow> nat \<Rightarrow> real \<Rightarrow> StepperMotor \<Rightarrow> StepperMotor" where
  "move_at dir steps initial_speed m = move dir steps (set_speed initial_speed m)"

datatype action =
    Block_take nat
  | Block_release nat
  | Append_gcode
  | Queue_head_block
  | Wait_for_empty_queue
  | Robot_gcode_Z real real
  | Printf
  | En_pin_set bool
  | Ultrasonic_pin_set bool
  | Stepper_move bool nat

subsection \<open>The state of one Extruder object\<close>

record Extruder =
  enabled :: bool
  single_config :: bool
  extruder_identifier :: nat
  absolute_mode :: bool
  milestone_absolute_mode :: bool
  milestone_last_position :: real
  retracted :: bool
  cancel_zlift_restore :: bool
  volumetric_multiplier :: real
  extruder_multiplier :: real
  max_volumetric_rate :: real
  stepper_motor :: StepperMotor
  steps_per_millimeter :: real
  steps_per_angle :: real
  filament_diameter :: real
  acceleration :: real
  feed_rate :: real
  retract_length :: real
  retract_feedrate :: real
  retract_recover_length :: real
  retract_recover_feedrate :: real
  retract_zlift_length :: real
  retract_zlift_feedrate :: real
  target_position :: real
  current_position :: real
  target_angle :: real
  current_angle :: real
  previous_angle :: real
  unstepped_distance :: real
  travel_ratio :: real
  travel_distance :: real
  travel_angle :: real
  saved_current_position :: real
  saved_current_angle :: real
  saved_absolute_mode :: bool
  current_position_optimize :: real
  current_block :: "Block option"
  mode :: motion_mode

subsection \<open>Angle and distance conversions\<close>

definition distance_to_angle :: "Extruder \<Rightarrow> real \<Rightarrow> real" where
  "distance_to_angle s dist_mm = (dist_mm * steps_per_millimeter s) / steps_per_angle s"

definition angle_to_distance :: "Extruder \<Rightarrow> real \<Rightarrow> real" where
  "angle_to_distance s angle = (angle * steps_per_angle s) / steps_per_millimeter s"

definition getNextEdgeAngle :: "real \<Rightarrow> real" where
  "getNextEdgeAngle angle =
     (let resAngle = 180 + angle in if resAngle \<ge> 360 then resAngle - 360 else resAngle)"

subsection \<open>std::min_element and std::max_element\<close>

text \<open>
  Both scan from the second element and move to a later element only when it is strictly
  smaller (larger) than the best so far, so the first of several equal extrema is returned.
  The result is the index of the element (what \<open>std::distance\<close> from \<open>begin()\<close> gives).
\<close>

fun min_scan :: "'a::linorder \<Rightarrow> nat \<Rightarrow> nat \<Rightarrow> 'a list \<Rightarrow> nat" where
  "min_scan smallest k i [] = k"
| "min_scan smallest k i (x # xs) =
     (if x < smallest then min_scan x i (Suc i) xs else min_scan smallest k (Suc i) xs)"

definition min_element :: "'a::linorder list \<Rightarrow> nat" where
  "min_element xs = (case xs of [] \<Rightarrow> 0 | x # rest \<Rightarrow> min_scan x 0 1 rest)"

fun max_scan :: "'a::linorder \<Rightarrow> nat \<Rightarrow> nat \<Rightarrow> 'a list \<Rightarrow> nat" where
  "max_scan largest k i [] = k"
| "max_scan largest k i (x # xs) =
     (if largest < x then max_scan x i (Suc i) xs else max_scan largest k (Suc i) xs)"

definition max_element :: "'a::linorder list \<Rightarrow> nat" where
  "max_element xs = (case xs of [] \<Rightarrow> 0 | x # rest \<Rightarrow> max_scan x 0 1 rest)"

subsection \<open>Extruder::optimize_angle\<close>

text \<open>The four candidate distances, in the order in which the source pushes them.\<close>

definition rotation_distances :: "real \<Rightarrow> real \<Rightarrow> real list" where
  "rotation_distances prev input_angle =
     [ \<bar>prev - input_angle\<bar>,
       \<bar>360 - \<bar>prev - input_angle\<bar>\<bar>,
       \<bar>getNextEdgeAngle prev - input_angle\<bar>,
       \<bar>360 - \<bar>getNextEdgeAngle prev - input_angle\<bar>\<bar> ]"

text \<open>The negative-angle step at the head of the function.\<close>

definition normalize_negative :: "real \<Rightarrow> real" where
  "normalize_negative input_angle = (if input_angle < 0 then 360 + input_angle else input_angle)"

text \<open>The range step: the statement guarded by the two limits.\<close>

definition limit_angle :: "Extruder_h \<Rightarrow> real \<Rightarrow> real" where
  "limit_angle H input_angle =
     (if MAX_ANGLE_LIMIT H < input_angle \<or> input_angle < MIN_ANGLE_LIMIT H
      then (input_angle / MAX_ANGLE_LIMIT H) * MAX_ANGLE_LIMIT H
      else input_angle)"

text \<open>The switch on the selected case; a value that is none of the four leaves the state.\<close>

definition case_travel :: "nat \<Rightarrow> real list \<Rightarrow> real \<Rightarrow> Extruder \<Rightarrow> Extruder" where
  "case_travel diff_case rotation_distance input_angle s =
     (if diff_case = FIRST_CASE then
        s\<lparr>travel_distance := angle_to_distance s (input_angle - previous_angle s)\<rparr>
      else if diff_case = SECOND_CASE then
        (if previous_angle s - input_angle < 0
         then s\<lparr>travel_distance := angle_to_distance s (rotation_distance ! diff_case) * (- 1)\<rparr>
         else s\<lparr>travel_distance := angle_to_distance s (rotation_distance ! diff_case)\<rparr>)
      else if diff_case = THIRD_CASE then
        s\<lparr>travel_distance :=
             angle_to_distance s (input_angle - getNextEdgeAngle (previous_angle s))\<rparr>
      else if diff_case = FOURTH_CASE then
        (if getNextEdgeAngle (previous_angle s) - input_angle < 0
         then s\<lparr>travel_distance := angle_to_distance s (rotation_distance ! diff_case) * (- 1)\<rparr>
         else s\<lparr>travel_distance := angle_to_distance s (rotation_distance ! diff_case)\<rparr>)
      else s)"

text \<open>The function returns a \<open>float\<close> and updates the object: the model returns both.\<close>

definition optimize_angle :: "Extruder_h \<Rightarrow> real \<Rightarrow> Extruder \<Rightarrow> real \<times> Extruder" where
  "optimize_angle H input_angle0 s =
     (let input_angle1 = normalize_negative input_angle0 in
      if input_angle1 = previous_angle s then (0, s\<lparr>travel_distance := 0\<rparr>)
      else
        let input_angle = limit_angle H input_angle1;
            rotation_distance = rotation_distances (previous_angle s) input_angle;
            diff_case = min_element rotation_distance
        in if rotation_distance ! diff_case = 0 then (0, s\<lparr>travel_distance := 0\<rparr>)
           else (0, (case_travel diff_case rotation_distance input_angle s)
                       \<lparr>previous_angle := input_angle\<rparr>))"

subsection \<open>Conversions between float and the integer types\<close>

text \<open>
  A cast from \<open>float\<close> truncates towards zero and is undefined when the result does not fit
  the target type; \<open>abs\<close> of the least \<open>int\<close> is undefined as well.
\<close>

definition float_trunc :: "real \<Rightarrow> int" where
  "float_trunc x = (if 0 \<le> x then \<lfloor>x\<rfloor> else \<lceil>x\<rceil>)"

definition float_to_int :: "real \<Rightarrow> int option" where
  "float_to_int x =
     (if - (2 ^ 31) \<le> float_trunc x \<and> float_trunc x < 2 ^ 31
      then Some (float_trunc x) else None)"

definition float_to_uint :: "real \<Rightarrow> nat option" where
  "float_to_uint x =
     (if 0 \<le> float_trunc x \<and> float_trunc x < 2 ^ 32
      then Some (nat (float_trunc x)) else None)"

definition abs_int :: "int \<Rightarrow> int option" where
  "abs_int i = (if i = - (2 ^ 31) then None else Some \<bar>i\<bar>)"

subsection \<open>Rounding to binary32\<close>

text \<open>
  The nearest integer, the even one of two that are equally near.
\<close>

definition round_even :: "real \<Rightarrow> int" where
  "round_even y =
     (let f = \<lfloor>y\<rfloor>; d = y - of_int f
      in if d < 1 / 2 then f else if 1 / 2 < d then f + 1 else if even f then f else f + 1)"

text \<open>
  The least power of two above a magnitude, searched upwards from \<open>t\<close> in at most \<open>k\<close>
  doublings. The search starts from 2 to the power -125 (the numbers below it, the least
  normal binade and the subnormal numbers, share one spacing), and 253 doublings reach 2
  to the power 128, the bound of the finite numbers.
\<close>

fun next_pow :: "nat \<Rightarrow> real \<Rightarrow> real \<Rightarrow> real" where
  "next_pow 0 t a = t"
| "next_pow (Suc k) t a = (if a < t then t else next_pow k (2 * t) a)"

text \<open>
  The binary32 number nearest to \<open>x\<close>, ties to the even significand: numbers of magnitude
  in \<open>[t / 2, t)\<close> are spaced \<open>t / 2 ^ 24\<close> apart (24 bits of significand). A result of
  magnitude 2 to the power 128 or more is an infinity.
\<close>

definition binary32 :: "real \<Rightarrow> real option" where
  "binary32 x =
     (let t = next_pow 253 (1 / 2 ^ 125) \<bar>x\<bar>;
          ulp = t / 2 ^ 24;
          r = of_int (round_even (x / ulp)) * ulp
      in if \<bar>r\<bar> < 2 ^ 128 then Some r else None)"

subsection \<open>The kernel values read by the handlers\<close>

text \<open>
  \<open>THEKERNEL->acceleration_ticks_per_second\<close>, the trapezoid-adjusted rate of the robot's
  stepper and the robot's seconds per minute are read from objects outside the module:
  the handlers take them as a parameter.
\<close>

record Kernel =
  acceleration_ticks_per_second :: nat
  trapezoid_adjusted_rate :: real
  seconds_per_minute :: real

subsection \<open>Block handlers\<close>

definition set_moved_last_block :: "bool \<Rightarrow> Extruder \<Rightarrow> Extruder" where
  "set_moved_last_block b s = s\<lparr>stepper_motor := (stepper_motor s)\<lparr>moved_last_block := b\<rparr>\<rparr>"

definition rate_increase :: "Kernel \<Rightarrow> Extruder \<Rightarrow> nat option" where
  "rate_increase K s =
     float_to_uint (of_int \<lfloor>(acceleration s / real (acceleration_ticks_per_second K))
                              * steps_per_millimeter s\<rfloor>)"

text \<open>\<open>argument_null\<close> is the test \<open>argument == 0\<close> of the source.\<close>

definition on_speed_change :: "Kernel \<Rightarrow> bool \<Rightarrow> Extruder \<Rightarrow> Extruder \<times> action list" where
  "on_speed_change K argument_null s =
     (case current_block s of
        None \<Rightarrow> (s, [])
      | Some block \<Rightarrow>
          if \<not> enabled s \<or> mode s \<noteq> FOLLOW \<or> \<not> moving (stepper_motor s) then (s, [])
          else if argument_null then
            (s\<lparr>stepper_motor := move False 0 (stepper_motor s), current_block := None\<rparr>,
             [Stepper_move False 0, Block_release (block_addr block)])
          else
            (s\<lparr>stepper_motor :=
                 set_speed (trapezoid_adjusted_rate K * real (steps_to_move (stepper_motor s))
                              / real (steps_event_count block))
                   (stepper_motor s)\<rparr>, []))"

text \<open>
  The local \<open>steps_to_step\<close> of \<open>on_block_begin\<close>: the sum and the product are \<open>float\<close>
  operations, \<open>floorf\<close> is exact, then come the cast to \<open>int\<close> and \<open>abs\<close>.
\<close>

definition steps_to_step :: "Extruder \<Rightarrow> int option" where
  "steps_to_step s =
     do {
       total \<leftarrow> binary32 (travel_distance s + unstepped_distance s);
       scaled \<leftarrow> binary32 (steps_per_millimeter s * total);
       i \<leftarrow> float_to_int (of_int \<lfloor>scaled\<rfloor>);
       abs_int i
     }"

text \<open>The position bookkeeping at the head of the common part of \<open>on_block_begin\<close>.\<close>

definition advance_position :: "Extruder \<Rightarrow> Extruder" where
  "advance_position s =
     (let s1 = s\<lparr>current_position := current_position s + travel_distance s\<rparr>;
          s2 = s1\<lparr>current_angle := current_angle s1 + distance_to_angle s1 (travel_distance s1)\<rparr>
      in if current_angle s2 > 360 then
           let s3 = s2\<lparr>current_angle := current_angle s2 - 360\<rparr>
           in s3\<lparr>current_position := angle_to_distance s3 (current_angle s3)\<rparr>
         else s2)"

text \<open>
  The update of the carry: the step count is converted to \<open>float\<close> and divided by the
  steps per millimetre, the quotient is subtracted from the travel distance when that is
  positive and added to it otherwise, and the result is added to the carry; four \<open>float\<close>
  operations. A division by zero yields an infinity or a NaN.
\<close>

definition accumulate_fraction :: "int \<Rightarrow> Extruder \<Rightarrow> Extruder option" where
  "accumulate_fraction n s =
     (if steps_per_millimeter s = 0 then None
      else
        do {
          steps \<leftarrow> binary32 (of_int n);
          stepped \<leftarrow> binary32 (steps / steps_per_millimeter s);
          rest \<leftarrow> binary32 (if travel_distance s > 0
                             then travel_distance s - stepped
                             else travel_distance s + stepped);
          carry \<leftarrow> binary32 (unstepped_distance s + rest);
          Some (s\<lparr>unstepped_distance := carry\<rparr>)
        })"

definition on_block_begin :: "Kernel \<Rightarrow> Block \<Rightarrow> Extruder \<Rightarrow> (Extruder \<times> action list) option" where
  "on_block_begin K block s =
     (if \<not> enabled s then Some (s, [])
      else if mode s = OFF then Some (set_moved_last_block False (s\<lparr>current_block := None\<rparr>), [])
      else
        do {
          let s1 = advance_position s;
          n \<leftarrow> steps_to_step s1;
          s2 \<leftarrow> accumulate_fraction n s1;
          if n \<noteq> 0 then
            do {
              let s3 = s2\<lparr>current_block := Some block\<rparr>;
              let s4 = s3\<lparr>stepper_motor := move (travel_distance s3 > 0) (nat n) (stepper_motor s3)\<rparr>;
              let taken = [Block_take (block_addr block), Stepper_move (travel_distance s3 > 0) (nat n)];
              if mode s4 = FOLLOW then
                (let (s5, acts) = on_speed_change K False s4
                 in Some (set_moved_last_block True s5, taken @ acts))
              else
                do {
                  target_rate \<leftarrow> float_to_uint (of_int \<lfloor>feed_rate s4 * steps_per_millimeter s4\<rfloor>);
                  increase \<leftarrow> rate_increase K s4;
                  let s5 = s4\<lparr>stepper_motor :=
                               set_speed (real (min target_rate increase)) (stepper_motor s4)\<rparr>;
                  Some (set_moved_last_block False s5, taken)
                }
            }
          else Some (set_moved_last_block False (s2\<lparr>current_block := None\<rparr>), [])
        })"

definition on_block_end :: "Extruder \<Rightarrow> Extruder" where
  "on_block_end s = (if \<not> enabled s then s else s\<lparr>current_block := None\<rparr>)"

definition stepper_motor_finished_move :: "Extruder \<Rightarrow> Extruder \<times> action list" where
  "stepper_motor_finished_move s =
     (if \<not> enabled s then (s, [])
      else case current_block s of
             Some block \<Rightarrow> (s\<lparr>current_block := None\<rparr>, [Block_release (block_addr block)])
           | None \<Rightarrow> (s, []))"

subsection \<open>Extruder::do_home\<close>

text \<open>
  The routine reads the sensor once per sweep move and then polls the stepper and the halt
  flag until the move is over. What it reads is given by the environment: the reading
  taken after the k-th move, and the successive observations (\<open>is_moving\<close>, \<open>is_halted\<close>)
  of the wait that follows the k-th move. A wait whose observations are used up while
  the stepper is still moving and no halt was seen has not returned: the result is \<open>None\<close>.
\<close>

record home_env =
  raw_value :: "nat \<Rightarrow> int"
  polls :: "nat \<Rightarrow> (bool \<times> bool) list"

datatype wait_result = Move_finished | Halt_seen

fun wait_while_moving :: "(bool \<times> bool) list \<Rightarrow> wait_result option" where
  "wait_while_moving [] = None"
| "wait_while_moving ((is_moving, is_halted) # rest) =
     (if is_moving then (if is_halted then Some Halt_seen else wait_while_moving rest)
      else Some Move_finished)"

text \<open>What the routine had done when it returned; the vector of samples is a local.\<close>

datatype home_outcome =
    Halted_in_sweep "int list"
  | Halted_in_final_move "int list" real
  | Homed "int list" real

text \<open>
  The sweep loop. Its state is the motor, the calls made so far, \<open>current_search_angle\<close> and
  \<open>sensor_value\<close>; it ends with the samples, or with \<open>Inl\<close> of them when a halt was seen.
\<close>

partial_function (option) find_zero_angle ::
  "Extruder_h \<Rightarrow> home_env \<Rightarrow> real \<Rightarrow> StepperMotor \<Rightarrow> action list \<Rightarrow> real \<Rightarrow> int list
     \<Rightarrow> ((int list + int list) \<times> StepperMotor \<times> action list) option" where
  "find_zero_angle H E spa motor acts current_search_angle sensor_value =
     (if current_search_angle \<le> DEGREE_OF_CYCLE H then
        do {
          steps \<leftarrow> float_to_uint (RAW_SEARCH_ANGLE H * spa);
          let motor1 = move_at True steps 1000 motor;
          let acts1 = acts @ [Stepper_move True steps];
          let sensor_value1 = sensor_value @ [raw_value E (length sensor_value)];
          w \<leftarrow> wait_while_moving (polls E (length sensor_value));
          if w = Halt_seen then Some (Inl sensor_value1, motor1, acts1 @ [Printf])
          else find_zero_angle H E spa (motor1\<lparr>moving := False\<rparr>) acts1
                 (current_search_angle + RAW_SEARCH_ANGLE H) sensor_value1
        }
      else Some (Inr sensor_value, motor, acts))"

definition do_home ::
  "Extruder_h \<Rightarrow> home_env \<Rightarrow> Extruder \<Rightarrow> (home_outcome \<times> Extruder \<times> action list) option" where
  "do_home H E s =
     do {
       let motor0 = set_speed 10000 ((stepper_motor s)\<lparr>motor_enabled := True\<rparr>);
       let motor1 = motor0\<lparr>moved_last_block := True\<rparr>;
       (swept, motor2, acts) \<leftarrow> find_zero_angle H E (steps_per_angle s) motor1 [] 0 [];
       (case swept of
          Inl sensor_value \<Rightarrow> Some (Halted_in_sweep sensor_value, s\<lparr>stepper_motor := motor2\<rparr>, acts)
        | Inr sensor_value \<Rightarrow>
            do {
              let angle = real (max_element sensor_value) * RAW_SEARCH_ANGLE H;
              steps \<leftarrow> float_to_uint (angle * steps_per_angle s);
              let motor3 = move_at True steps 1000 motor2;
              let acts1 = acts @ [Stepper_move True steps];
              w \<leftarrow> wait_while_moving (polls E (length sensor_value));
              if w = Halt_seen
              then Some (Halted_in_final_move sensor_value angle,
                         s\<lparr>stepper_motor := motor3\<rparr>, acts1 @ [Printf])
              else Some (Homed sensor_value angle,
                         s\<lparr>stepper_motor := motor3\<lparr>moving := False\<rparr>\<rparr>, acts1)
            })
     }"

subsection \<open>Commands\<close>

text \<open>
  Modelled from the spec: class Gcode is not among the sources. The handlers read whether
  the command is an M or a G command and its number, the letters it carries with their
  values, the number of its arguments and the travel of the primary axes.
\<close>

record Gcode =
  has_m :: bool
  m :: nat
  subcode :: nat
  has_g :: bool
  g :: nat
  params :: "(char \<times> real) list"
  millimeters_of_travel :: real

definition has_letter :: "Gcode \<Rightarrow> char \<Rightarrow> bool" where
  "has_letter gcode c = (map_of (params gcode) c \<noteq> None)"

definition get_value :: "Gcode \<Rightarrow> char \<Rightarrow> real" where
  "get_value gcode c = (case map_of (params gcode) c of Some v \<Rightarrow> v | None \<Rightarrow> 0)"

definition get_num_args :: "Gcode \<Rightarrow> nat" where
  "get_num_args gcode = length (params gcode)"

definition PI :: real where
  "PI = 314159265358979 / 100000000000000"

subsubsection \<open>Extruder::on_gcode_execute\<close>

text \<open>The body of the branch for a G0 .. G3 command that carries an E word.\<close>

definition execute_extrusion :: "Extruder_h \<Rightarrow> Gcode \<Rightarrow> Extruder \<Rightarrow> Extruder" where
  "execute_extrusion H gcode s =
     (let (angle, s1) = optimize_angle H (get_value gcode CHR ''E'') s;
          extrusion_distance = angle_to_distance s1 angle;
          (relative_extrusion_distance, s2) =
            (if absolute_mode s1
             then (extrusion_distance - target_position s1,
                   s1\<lparr>target_position := extrusion_distance, target_angle := angle\<rparr>)
             else (extrusion_distance,
                   s1\<lparr>target_position := target_position s1 + extrusion_distance,
                      target_angle := target_angle s1 + angle\<rparr>))
      in if \<bar>millimeters_of_travel gcode\<bar> < 1 / 100000
         then s2\<lparr>mode := SOLO\<rparr>
         else s2\<lparr>mode := FOLLOW,
                 travel_ratio :=
                   (relative_extrusion_distance * volumetric_multiplier s2 * extruder_multiplier s2)
                     / millimeters_of_travel gcode\<rparr>)"

definition execute_feed_rate :: "Kernel \<Rightarrow> Gcode \<Rightarrow> Extruder \<Rightarrow> Extruder" where
  "execute_feed_rate K gcode s =
     (let s1 = s\<lparr>feed_rate := get_value gcode CHR ''F'' / seconds_per_minute K\<rparr>
      in if max_rate (stepper_motor s1) > 0 \<and> feed_rate s1 > max_rate (stepper_motor s1)
         then s1\<lparr>feed_rate := max_rate (stepper_motor s1)\<rparr> else s1)"

definition on_gcode_execute ::
  "Kernel \<Rightarrow> Extruder_h \<Rightarrow> Gcode \<Rightarrow> Extruder \<Rightarrow> Extruder \<times> action list" where
  "on_gcode_execute K H gcode s0 =
     (let s = s0\<lparr>mode := OFF\<rparr> in
      if has_m gcode then
        (if m gcode = 17 then (s, [En_pin_set False])
         else if m gcode = 18 then (s, [En_pin_set True])
         else if m gcode = 82 then (s\<lparr>absolute_mode := True\<rparr>, [])
         else if m gcode = 83 then (s\<lparr>absolute_mode := False\<rparr>, [])
         else if m gcode = 84 then (s, [En_pin_set True])
         else (s, []))
      else if has_g gcode \<and> (g gcode = 90 \<or> g gcode = 91) then
        (s\<lparr>absolute_mode := (g gcode = 90)\<rparr>, [])
      else if has_g gcode \<and> enabled s then
        (if g gcode = 92 then
           (if has_letter gcode CHR ''E'' then
              (let (angle, s1) = optimize_angle H (get_value gcode CHR ''E'') s;
                   s2 = s1\<lparr>current_angle := angle\<rparr>;
                   s3 = s2\<lparr>target_angle := current_angle s2\<rparr>;
                   s4 = s3\<lparr>current_position := angle_to_distance s3 (current_angle s3)\<rparr>;
                   s5 = s4\<lparr>target_position := current_position s4\<rparr>
               in (s5\<lparr>unstepped_distance := 0\<rparr>, []))
            else if get_num_args gcode = 0 then
              (s\<lparr>current_position := 0, target_position := 0, current_angle := 0,
                 target_angle := 0, unstepped_distance := 0\<rparr>, [])
            else (s, []))
         else if g gcode \<le> 3 then
           (let (s1, acts) =
                  (if has_letter gcode CHR ''E''
                   then (execute_extrusion H gcode s, [En_pin_set False]) else (s, []))
            in (if has_letter gcode CHR ''F'' then execute_feed_rate K gcode s1 else s1, acts))
         else (s, []))
      else (s, []))"

subsubsection \<open>Extruder::on_gcode_received\<close>

text \<open>The condition that selects the extruder a setting command is for.\<close>

definition for_this_extruder :: "Gcode \<Rightarrow> Extruder \<Rightarrow> bool" where
  "for_this_extruder gcode s =
     ((enabled s \<and> \<not> has_letter gcode CHR ''P'')
      \<or> (has_letter gcode CHR ''P'' \<and> get_value gcode CHR ''P'' = real (extruder_identifier s)))"

definition set_if :: "Gcode \<Rightarrow> char \<Rightarrow> (real \<Rightarrow> Extruder \<Rightarrow> Extruder) \<Rightarrow> Extruder \<Rightarrow> Extruder" where
  "set_if gcode c f s = (if has_letter gcode c then f (get_value gcode c) s else s)"

text \<open>The chain on M commands; every \<open>printf\<close> and appended reply is one \<open>Printf\<close>.\<close>

definition received_m :: "Gcode \<Rightarrow> Extruder \<Rightarrow> Extruder \<times> action list" where
  "received_m gcode s =
     (if m gcode = 114 \<and> subcode gcode = 0 \<and> enabled s then (s, [Printf])
      else if m gcode = 92 \<and> for_this_extruder gcode s then
        (set_if gcode CHR ''E'' (\<lambda>v x. x\<lparr>steps_per_millimeter := v\<rparr>) s, [Printf])
      else if m gcode = 200 \<and> for_this_extruder gcode s then
        (if has_letter gcode CHR ''D'' then
           (let s1 = s\<lparr>filament_diameter := get_value gcode CHR ''D''\<rparr>
            in (if filament_diameter s1 > 1 / 100
                then s1\<lparr>volumetric_multiplier := 1 / ((filament_diameter s1 / 2) ^ 2 * PI)\<rparr>
                else s1\<lparr>volumetric_multiplier := 1\<rparr>),
            [Wait_for_empty_queue])
         else (s, [Printf]))
      else if m gcode = 203 \<and> for_this_extruder gcode s then
        (if get_num_args gcode = 0 then (s, [Printf])
         else
           (set_if gcode CHR ''V'' (\<lambda>v x. x\<lparr>max_volumetric_rate := v\<rparr>)
              (set_if gcode CHR ''E''
                 (\<lambda>v x. x\<lparr>stepper_motor := (stepper_motor x)\<lparr>max_rate := v\<rparr>\<rparr>) s), []))
      else if m gcode = 204 \<and> has_letter gcode CHR ''E'' \<and> for_this_extruder gcode s then
        (s\<lparr>acceleration := get_value gcode CHR ''E''\<rparr>, [])
      else if m gcode = 207 \<and> for_this_extruder gcode s then
        (set_if gcode CHR ''Q'' (\<lambda>v x. x\<lparr>retract_zlift_feedrate := v\<rparr>)
           (set_if gcode CHR ''Z'' (\<lambda>v x. x\<lparr>retract_zlift_length := v\<rparr>)
              (set_if gcode CHR ''F'' (\<lambda>v x. x\<lparr>retract_feedrate := v / 60\<rparr>)
                 (set_if gcode CHR ''S'' (\<lambda>v x. x\<lparr>retract_length := v\<rparr>) s))), [])
      else if m gcode = 208 \<and> for_this_extruder gcode s then
        (set_if gcode CHR ''F'' (\<lambda>v x. x\<lparr>retract_recover_feedrate := v / 60\<rparr>)
           (set_if gcode CHR ''S'' (\<lambda>v x. x\<lparr>retract_recover_length := v\<rparr>) s), [])
      else if m gcode = 221 \<and> enabled s then
        (if has_letter gcode CHR ''S''
         then (s\<lparr>extruder_multiplier := get_value gcode CHR ''S'' / 100\<rparr>, [])
         else (s, [Printf]))
      else if m gcode = 500 \<or> m gcode = 503 then
        (s, replicate 6 Printf @ (if max_volumetric_rate s > 0 then [Printf] else []))
      else if m gcode = 17 \<or> m gcode = 18 \<or> m gcode = 82 \<or> m gcode = 83 \<or> m gcode = 84 then
        (s, [Append_gcode])
      else (s, []))"

text \<open>
  The chain on G commands. The first component of the result tells whether the handler
  returned from inside the chain (the duplicate retract or un-retract).
\<close>

definition received_g :: "Gcode \<Rightarrow> Extruder \<Rightarrow> bool \<times> Extruder \<times> action list" where
  "received_g gcode s =
     (if (g gcode = 92 \<and> has_letter gcode CHR ''E'') \<or> (g gcode = 90 \<or> g gcode = 91) then
        (False, s, [Append_gcode])
      else if enabled s \<and> g gcode < 4 \<and> has_letter gcode CHR ''E''
              \<and> \<bar>millimeters_of_travel gcode\<bar> < 1 / 100000 then
        (False, s, [Append_gcode, Queue_head_block])
      else if enabled s \<and> (g gcode = 10 \<or> g gcode = 11) \<and> \<not> has_letter gcode CHR ''L'' then
        (if (g gcode = 10 \<and> \<not> retracted s) \<or> (g gcode = 11 \<and> retracted s) then
           (let s1 = (if g gcode = 10 \<and> \<not> retracted s
                      then s\<lparr>retracted := True, cancel_zlift_restore := False\<rparr>
                      else s\<lparr>retracted := False\<rparr>)
            in (False, s1,
                (if retract_zlift_length s1 > 0 \<and> g gcode = 11 \<and> \<not> cancel_zlift_restore s1
                 then [Robot_gcode_Z (- retract_zlift_length s1) (retract_zlift_feedrate s1)]
                 else [])
                @ [Append_gcode, Queue_head_block]
                @ (if retract_zlift_length s1 > 0 \<and> g gcode = 10
                   then [Robot_gcode_Z (retract_zlift_length s1) (retract_zlift_feedrate s1)]
                   else [])))
         else (True, s, []))
      else if enabled s \<and> retracted s \<and> (g gcode = 0 \<or> g gcode = 1)
              \<and> has_letter gcode CHR ''Z'' then
        (False, s\<lparr>cancel_zlift_restore := True\<rparr>, [])
      else (False, s, []))"

text \<open>The second part of the handler: the switch on M commands ...\<close>

definition milestone_m :: "Gcode \<Rightarrow> Extruder \<Rightarrow> Extruder \<times> action list" where
  "milestone_m gcode s =
     (if m gcode = 50 then (s, [Ultrasonic_pin_set True])
      else if m gcode = 51 then (s, [Ultrasonic_pin_set False])
      else if m gcode = 52 \<or> m gcode = 53 \<or> m gcode = 54 then (s, [Printf])
      else if m gcode = 82 then (s\<lparr>milestone_absolute_mode := True\<rparr>, [])
      else if m gcode = 83 then (s\<lparr>milestone_absolute_mode := False\<rparr>, [])
      else (s, []))"

text \<open>... and the switch on G commands, of which G28 may run the homing routine.\<close>

definition reset_after_home :: "Extruder \<Rightarrow> Extruder" where
  "reset_after_home s =
     s\<lparr>target_position := 0, current_position := 0, target_angle := 0, current_angle := 0,
       unstepped_distance := 0, travel_ratio := 0, travel_distance := 0, travel_angle := 0,
       saved_current_position := 0, saved_current_angle := 0, current_position_optimize := 0\<rparr>"

definition milestone_g ::
  "Extruder_h \<Rightarrow> home_env \<Rightarrow> Gcode \<Rightarrow> Extruder \<Rightarrow> (Extruder \<times> action list) option" where
  "milestone_g H E gcode s =
     (if g gcode = 90 then Some (s\<lparr>milestone_absolute_mode := True\<rparr>, [])
      else if g gcode = 91 then Some (s\<lparr>milestone_absolute_mode := False\<rparr>, [])
      else if g gcode = 92 then
        Some (if enabled s then
                (if has_letter gcode CHR ''E''
                 then s\<lparr>milestone_last_position := get_value gcode CHR ''E''\<rparr>
                 else if get_num_args gcode = 0 then s\<lparr>milestone_last_position := 0\<rparr> else s)
              else s, [])
      else if g gcode = 28 then
        (let s1 = s\<lparr>current_angle := 0\<rparr> in
         if has_letter gcode CHR ''E'' then
           do {
             (outcome, s2, acts) \<leftarrow> do_home H E s1;
             Some (reset_after_home s2, acts)
           }
         else Some (reset_after_home s1, []))
      else Some (s, []))"

definition on_gcode_received ::
  "Extruder_h \<Rightarrow> home_env \<Rightarrow> Gcode \<Rightarrow> Extruder \<Rightarrow> (Extruder \<times> action list) option" where
  "on_gcode_received H E gcode s =
     (let (returned, s1, acts) =
            (if has_m gcode then (let (x, a) = received_m gcode s in (False, x, a))
             else if has_g gcode then received_g gcode s
             else (False, s, []))
      in if returned then Some (s1, acts)
         else if has_m gcode then (let (s2, acts2) = milestone_m gcode s1 in Some (s2, acts @ acts2))
         else if has_g gcode then
           do {
             (s2, acts2) \<leftarrow> milestone_g H E gcode s1;
             Some (s2, acts @ acts2)
           }
         else Some (s1, acts))"

subsection \<open>Sequences of events\<close>

text \<open>
  The handlers are called by the event bus and by the stepper motor. A run applies them
  in the order of a list of events and collects the calls they make on the collaborators.
  The stepper calls \<open>stepper_motor_finished_move\<close> when its move is over, so it is idle
  by then.
\<close>

datatype event =
    Gcode_execute Gcode
  | Block_begin Block
  | Block_end
  | Stepper_finished
  | Speed_change bool

definition step ::
  "Kernel \<Rightarrow> Extruder_h \<Rightarrow> event \<Rightarrow> Extruder \<Rightarrow> (Extruder \<times> action list) option" where
  "step K H e s =
     (case e of
        Gcode_execute gcode \<Rightarrow> Some (on_gcode_execute K H gcode s)
      | Block_begin block \<Rightarrow> on_block_begin K block s
      | Block_end \<Rightarrow> Some (on_block_end s, [])
      | Stepper_finished \<Rightarrow>
          Some (stepper_motor_finished_move
                  (s\<lparr>stepper_motor := (stepper_motor s)\<lparr>moving := False\<rparr>\<rparr>))
      | Speed_change argument_null \<Rightarrow> Some (on_speed_change K argument_null s))"

fun run ::
  "Kernel \<Rightarrow> Extruder_h \<Rightarrow> event list \<Rightarrow> Extruder \<Rightarrow> (Extruder \<times> action list) option" where
  "run K H [] s = Some (s, [])"
| "run K H (e # es) s =
     do {
       (s1, acts1) \<leftarrow> step K H e s;
       (s2, acts2) \<leftarrow> run K H es s1;
       Some (s2, acts1 @ acts2)
     }"

fun is_take :: "action \<Rightarrow> bool" where
  "is_take (Block_take a) = True"
| "is_take other = False"

fun is_release :: "action \<Rightarrow> bool" where
  "is_release (Block_release a) = True"
| "is_release other = False"

text \<open>Calls among which there is neither a take nor a release.\<close>

definition quiet :: "action list \<Rightarrow> bool" where
  "quiet acts = list_all (\<lambda>a. \<not> is_take a \<and> \<not> is_release a) acts"

definition claims :: "action list \<Rightarrow> nat" where
  "claims acts = length (filter is_take acts)"

definition releases :: "action list \<Rightarrow> nat" where
  "releases acts = length (filter is_release acts)"

text \<open>
  The takes and releases of a list of calls, followed one by one from the address of the
  block held before it (if any): a take is in order only while no block is held, a
  release only of the block that is held. The result is the block held after the calls,
  or \<open>None\<close> when a call was out of order.
\<close>

fun track :: "nat option \<Rightarrow> action list \<Rightarrow> nat option option" where
  "track h [] = Some h"
| "track h (Block_take a # acts) = (if h = None then track (Some a) acts else None)"
| "track h (Block_release a # acts) = (if h = Some a then track None acts else None)"
| "track h (other # acts) = track h acts"

text \<open>
  The order in which the motion queue raises the block events: a block begins, and a block
  ends, only while the axis holds no block.
\<close>

fun is_block_boundary :: "event \<Rightarrow> bool" where
  "is_block_boundary (Block_begin b) = True"
| "is_block_boundary Block_end = True"
| "is_block_boundary other = False"

fun queue_ordered :: "Kernel \<Rightarrow> Extruder_h \<Rightarrow> event list \<Rightarrow> Extruder \<Rightarrow> bool" where
  "queue_ordered K H [] s = True"
| "queue_ordered K H (e # es) s =
     ((is_block_boundary e \<longrightarrow> current_block s = None) \<and>
      (case step K H e s of None \<Rightarrow> True | Some (s1, acts) \<Rightarrow> queue_ordered K H es s1))"

text \<open>
  Consecutive blocks: before each block begins the command layer has stored the travel
  distance of the block; the result lists the state and the calls after each block.
\<close>

fun block_begins ::
  "Kernel \<Rightarrow> Block \<Rightarrow> real list \<Rightarrow> Extruder \<Rightarrow> (Extruder \<times> action list) list option" where
  "block_begins K block [] s = Some []"
| "block_begins K block (d # ds) s =
     do {
       (s1, acts) \<leftarrow> on_block_begin K block (s\<lparr>travel_distance := d\<rparr>);
       rest \<leftarrow> block_begins K block ds s1;
       Some ((s1, acts) # rest)
     }"

text \<open>The steps commanded to the stepper, counted with the sign of their direction.\<close>

fun signed_steps :: "action list \<Rightarrow> int" where
  "signed_steps [] = 0"
| "signed_steps (Stepper_move dir n # acts) =
     (if dir then int n else - int n) + signed_steps acts"
| "signed_steps (other # acts) = signed_steps acts"

subsection \<open>The configuration of the spec's scenarios\<close>

text \<open>
  An enabled axis as \<open>on_module_loaded\<close> leaves it, with 10 steps per millimetre and 5
  steps per degree and the defaults of \<open>on_config_reload\<close> elsewhere; angle limits 0 and
  360, a homing sweep of 360 degrees in increments of 10.
\<close>

definition scenario_header :: Extruder_h where
  "scenario_header =
     \<lparr>MIN_ANGLE_LIMIT = 0, MAX_ANGLE_LIMIT = 360, DEGREE_OF_CYCLE = 360, RAW_SEARCH_ANGLE = 10\<rparr>"

definition scenario_kernel :: Kernel where
  "scenario_kernel =
     \<lparr>acceleration_ticks_per_second = 1000, trapezoid_adjusted_rate = 2000,
      seconds_per_minute = 60\<rparr>"

definition idle_motor :: StepperMotor where
  "idle_motor =
     \<lparr>moving = False, direction_bit = False, steps_to_move = 0, steps_per_second = 0,
      max_rate = 1000, moved_last_block = False, motor_enabled = False\<rparr>"

definition scenario_extruder :: Extruder where
  "scenario_extruder =
     \<lparr>enabled = True, single_config = True, extruder_identifier = 0,
      absolute_mode = True, milestone_absolute_mode = True, milestone_last_position = 0,
      retracted = False, cancel_zlift_restore = False,
      volumetric_multiplier = 1, extruder_multiplier = 1, max_volumetric_rate = 0,
      stepper_motor = idle_motor,
      steps_per_millimeter = 10, steps_per_angle = 5, filament_diameter = 0,
      acceleration = 1000, feed_rate = 1000,
      retract_length = 3, retract_feedrate = 45,
      retract_recover_length = 0, retract_recover_feedrate = 8,
      retract_zlift_length = 0, retract_zlift_feedrate = 6000,
      target_position = 0, current_position = 0, target_angle = 0, current_angle = 0,
      previous_angle = 0, unstepped_distance = 0,
      travel_ratio = 0, travel_distance = 0, travel_angle = 0,
      saved_current_position = 0, saved_current_angle = 0, saved_absolute_mode = True,
      current_position_optimize = 0,
      current_block = None, mode = OFF\<rparr>"

definition scenario_block :: Block where
  "scenario_block = \<lparr>block_addr = 1, steps_event_count = 400\<rparr>"

text \<open>A sensor whose reading peaks at the sample of index 18; every move ends unhalted.\<close>

definition scenario_home_env :: home_env where
  "scenario_home_env =
     \<lparr>raw_value = (\<lambda>k. if k = 18 then 900 else 100),
      polls = (\<lambda>k. [(True, False), (False, False)])\<rparr>"

definition G :: "nat \<Rightarrow> (char \<times> real) list \<Rightarrow> real \<Rightarrow> Gcode" where
  "G n ps travel =
     \<lparr>has_m = False, m = 0, subcode = 0, has_g = True, g = n, params = ps,
      millimeters_of_travel = travel\<rparr>"

text \<open>Whether the axis holds a block, as a number.\<close>

definition held :: "Extruder \<Rightarrow> nat" where
  "held s = (if current_block s = None then 0 else 1)"

text \<open>The samples and the home angle that a homing run had reached when it returned.\<close>

definition samples_of :: "home_outcome \<Rightarrow> int list" where
  "samples_of out =
     (case out of
        Halted_in_sweep xs \<Rightarrow> xs
      | Halted_in_final_move xs a \<Rightarrow> xs
      | Homed xs a \<Rightarrow> xs)"

definition home_angle_of :: "home_outcome \<Rightarrow> real option" where
  "home_angle_of out =
     (case out of
        Halted_in_sweep xs \<Rightarrow> None
      | Halted_in_final_move xs a \<Rightarrow> Some a
      | Homed xs a \<Rightarrow> Some a)"

section \<open>Properties\<close>

text \<open>Rules for evaluating the model at concrete inputs.\<close>

lemma next_pow_unfold:
  "next_pow k t a = (if k = 0 then t else if a < t then t else next_pow (k - 1) (2 * t) a)"
  by (cases k) simp_all

lemma ceiling_minus_one: "\<lceil>- 1 :: real\<rceil> = - 1"
  using ceiling_of_int[of "- 1", where ?'a = real] by simp

lemma bind_weak_cong: "x = y \<Longrightarrow> Option.bind x f = Option.bind y f"
  by simp

lemmas scenario_defs = scenario_header_def scenario_kernel_def idle_motor_def
  scenario_extruder_def scenario_block_def scenario_home_env_def G_def

lemmas angle_defs = optimize_angle_def normalize_negative_def limit_angle_def
  rotation_distances_def min_element_def case_travel_def getNextEdgeAngle_def
  angle_to_distance_def distance_to_angle_def
  FIRST_CASE_def SECOND_CASE_def THIRD_CASE_def FOURTH_CASE_def

lemmas float_defs = binary32_def round_even_def next_pow_unfold ceiling_minus_one

lemmas block_defs = on_block_begin_def on_block_end_def on_speed_change_def
  stepper_motor_finished_move_def advance_position_def accumulate_fraction_def
  steps_to_step_def set_moved_last_block_def rate_increase_def move_def set_speed_def
  float_to_int_def float_to_uint_def float_trunc_def abs_int_def float_defs

lemmas gcode_defs = on_gcode_execute_def execute_extrusion_def execute_feed_rate_def
  has_letter_def get_value_def get_num_args_def

subsection \<open>The angle optimizer\<close>



text \<open>
  In real arithmetic the statement of the range step divides by the upper limit and
  multiplies by it again: the angle it stores is the angle it read.
\<close>

lemma limit_angle_id: "MAX_ANGLE_LIMIT H \<noteq> 0 \<Longrightarrow> limit_angle H x = x"
  by (simp add: limit_angle_def)



lemma getNextEdgeAngle_range:
  "0 \<le> p \<Longrightarrow> p < 360 \<Longrightarrow>
     0 \<le> getNextEdgeAngle p \<and> getNextEdgeAngle p < 360 \<and> getNextEdgeAngle p \<noteq> p"
  by (simp add: getNextEdgeAngle_def Let_def)

lemma optimize_angle_fst: "fst (optimize_angle H x s) = 0"
  by (simp add: optimize_angle_def Let_def)



text \<open>
  Claim C7. When the input angle is the stored previous angle \<open>a\<close> (any \<open>a\<close> that is not
  negative, so every \<open>a\<close> in [0,360)), \<open>optimize_angle\<close> returns zero, sets the travel
  distance to zero and changes nothing else: the previous angle is still \<open>a\<close>.
\<close>

theorem optimize_angle_same_angle:
  assumes "0 \<le> a" and "previous_angle s = a"
  shows "fst (optimize_angle H a s) = 0 \<and>
         travel_distance (snd (optimize_angle H a s)) = 0 \<and>
         previous_angle (snd (optimize_angle H a s)) = a \<and>
         snd (optimize_angle H a s) = s\<lparr>travel_distance := 0\<rparr>"
  using assms by (simp add: optimize_angle_def normalize_negative_def)

theorem optimize_angle_same_angle_witness:
  "(0::real) \<le> 90
   \<and> previous_angle (scenario_extruder\<lparr>previous_angle := 90\<rparr>) = 90
   \<and> fst (optimize_angle scenario_header 90 (scenario_extruder\<lparr>previous_angle := 90\<rparr>)) = 0
   \<and> travel_distance
        (snd (optimize_angle scenario_header 90 (scenario_extruder\<lparr>previous_angle := 90\<rparr>))) = 0
   \<and> previous_angle
        (snd (optimize_angle scenario_header 90 (scenario_extruder\<lparr>previous_angle := 90\<rparr>))) = 90"
proof -
  have h: "(0::real) \<le> 90"
    "previous_angle (scenario_extruder\<lparr>previous_angle := 90\<rparr>) = 90"
    by simp_all
  show ?thesis using h optimize_angle_same_angle[OF h, of scenario_header] by simp
qed

text \<open>
  Claim C10. When the input angle is the antipode of the previous angle \<open>p\<close> in [0,360),
  that is \<open>getNextEdgeAngle p\<close>, the third candidate distance is zero and is the one
  selected, so the function takes its early return: the travel distance is zero and the
  previous angle is still \<open>p\<close>. A commanded half turn produces no travel.
\<close>

theorem optimize_angle_antipodal:
  assumes "0 \<le> p" and "p < 360" and "previous_angle s = p" and "MAX_ANGLE_LIMIT H \<noteq> 0"
  shows "rotation_distances p (getNextEdgeAngle p) ! THIRD_CASE = 0 \<and>
         min_element (rotation_distances p (getNextEdgeAngle p)) = THIRD_CASE \<and>
         travel_distance (snd (optimize_angle H (getNextEdgeAngle p) s)) = 0 \<and>
         previous_angle (snd (optimize_angle H (getNextEdgeAngle p) s)) = p"
proof -
  have r: "0 \<le> getNextEdgeAngle p" "getNextEdgeAngle p \<noteq> p"
    using getNextEdgeAngle_range[OF assms(1,2)] by simp_all
  have m: "min_element (rotation_distances p (getNextEdgeAngle p)) = 2"
    using assms(1,2) by (simp add: rotation_distances_def min_element_def getNextEdgeAngle_def Let_def)
  have z: "rotation_distances p (getNextEdgeAngle p) ! 2 = 0"
    by (simp add: rotation_distances_def)
  show ?thesis using r m z assms(3)
    by (simp add: optimize_angle_def normalize_negative_def Let_def limit_angle_id[OF assms(4)] THIRD_CASE_def)
qed

theorem optimize_angle_antipodal_witness:
  "(0::real) \<le> 90 \<and> (90::real) < 360
   \<and> previous_angle (scenario_extruder\<lparr>previous_angle := 90\<rparr>) = 90
   \<and> MAX_ANGLE_LIMIT scenario_header \<noteq> 0
   \<and> getNextEdgeAngle 90 = 270
   \<and> travel_distance
        (snd (optimize_angle scenario_header 270 (scenario_extruder\<lparr>previous_angle := 90\<rparr>))) = 0
   \<and> previous_angle
        (snd (optimize_angle scenario_header 270 (scenario_extruder\<lparr>previous_angle := 90\<rparr>))) = 90"
proof -
  have h: "(0::real) \<le> 90" "(90::real) < 360"
    "previous_angle (scenario_extruder\<lparr>previous_angle := 90\<rparr>) = 90"
    "MAX_ANGLE_LIMIT scenario_header \<noteq> 0"
    by (simp_all add: scenario_defs)
  have e: "getNextEdgeAngle 90 = 270" by (simp add: getNextEdgeAngle_def)
  show ?thesis using h e optimize_angle_antipodal[OF h] by simp
qed

text \<open>
  Claim C4 says that \<open>optimize_angle\<close> returns the normalized angle. Every \<open>return\<close> of
  the function returns the constant 0 (lemma \<open>optimize_angle_fst\<close>). At the input
  90, which is in range and is its own normal form, with previous angle 0: the value
  returned is 0, not 90, while the travel distance 45 and the previous angle 90 are stored
  in the object; and a G92 E90 command, which assigns the returned value to
  \<open>current_angle\<close>, leaves \<open>current_angle\<close> at 0.
\<close>

theorem optimize_angle_returns_zero_at_90:
  "fst (optimize_angle scenario_header 90 scenario_extruder) = 0
   \<and> normalize_negative 90 = 90
   \<and> travel_distance (snd (optimize_angle scenario_header 90 scenario_extruder)) = 45
   \<and> previous_angle (snd (optimize_angle scenario_header 90 scenario_extruder)) = 90
   \<and> current_angle
        (fst (on_gcode_execute scenario_kernel scenario_header (G 92 [(CHR ''E'', 90)] 0)
                scenario_extruder)) = 0"
  by (simp add: scenario_defs angle_defs gcode_defs Let_def)

text \<open>
  Claim C8 says that an angle outside the limits is replaced by the angle wrapped modulo
  the upper limit, which then lies within the limits. With the limits 0 and 360 and the
  input 400 the range step is entered and stores 400 again: the candidates are computed
  from 400, and 400 becomes the previous angle.
\<close>

theorem limit_angle_leaves_400:
  "MAX_ANGLE_LIMIT scenario_header < 400
   \<and> limit_angle scenario_header 400 = 400
   \<and> previous_angle (snd (optimize_angle scenario_header 400 scenario_extruder)) = 400
   \<and> travel_distance (snd (optimize_angle scenario_header 400 scenario_extruder)) = - 20"
  by (simp add: scenario_defs angle_defs Let_def)

subsection \<open>Blocks and the fractional-step carry\<close>

text \<open>
  Claim C2 says that after every block the magnitude of \<open>unstepped_distance\<close> is strictly
  less than the distance of one step, and that the signed steps times the step pitch plus
  the final carry are the sum of the travel distances. With 10 steps per millimetre and
  the carry 0, the travel distances 25/64, -3/32, -19/64 (0.390625, -0.09375, -0.296875)
  lead the binary32 arithmetic of \<open>on_block_begin\<close> to a sum whose product with 10 rounds
  below -2: the third block takes 3 steps where 2 are due and leaves the carry
  13421773/134217728, the binary32 number next to 1/10 and larger than it, which is one
  whole step. The carry is then added to, not reduced, by every block whose travel is not
  positive: two further blocks of travel 0 command 1 and 2 steps backwards and double the
  carry each time.
\<close>

theorem carry_reaches_a_whole_step:
  "map_option (map (\<lambda>r. (signed_steps (snd r), unstepped_distance (fst r))))
     (block_begins scenario_kernel scenario_block [25/64, - (3/32), - (19/64), 0, 0]
       (scenario_extruder\<lparr>mode := SOLO\<rparr>))
   = Some [(3, 1520435 / 16777216), (- 1, 13002341 / 134217728),
           (- 3, 13421773 / 134217728), (- 1, 13421773 / 67108864),
           (- 2, 13421773 / 33554432)]
   \<and> unstepped_distance (scenario_extruder\<lparr>mode := SOLO\<rparr>) = 0
   \<and> 1 / steps_per_millimeter (scenario_extruder\<lparr>mode := SOLO\<rparr>) < 13421773 / 134217728"
  by (simp add: scenario_defs block_defs angle_defs Let_def
      cong: bind_weak_cong let_weak_cong)

subsection \<open>Claims and releases of the shared block\<close>

lemma advance_position_fields [simp]:
  "steps_per_millimeter (advance_position s) = steps_per_millimeter s"
  "travel_distance (advance_position s) = travel_distance s"
  "unstepped_distance (advance_position s) = unstepped_distance s"
  "enabled (advance_position s) = enabled s"
  "mode (advance_position s) = mode s"
  "current_block (advance_position s) = current_block s"
  "stepper_motor (advance_position s) = stepper_motor s"
  by (simp_all add: advance_position_def Let_def)

lemma accumulate_fraction_carry:
  "accumulate_fraction n s = Some s2 \<Longrightarrow> s2 = s\<lparr>unstepped_distance := unstepped_distance s2\<rparr>"
  by (auto simp: accumulate_fraction_def split: if_splits Option.bind_splits)

lemma set_moved_last_block_fields [simp]:
  "steps_per_millimeter (set_moved_last_block b s) = steps_per_millimeter s"
  "travel_distance (set_moved_last_block b s) = travel_distance s"
  "unstepped_distance (set_moved_last_block b s) = unstepped_distance s"
  "enabled (set_moved_last_block b s) = enabled s"
  "mode (set_moved_last_block b s) = mode s"
  "current_block (set_moved_last_block b s) = current_block s"
  by (simp_all add: set_moved_last_block_def)

lemma on_speed_change_set_speed:
  "on_speed_change K False s = (s', acts) \<Longrightarrow>
     acts = [] \<and> (\<exists>m. s' = s\<lparr>stepper_motor := m\<rparr>)"
  by (auto simp: on_speed_change_def split: option.splits if_splits
      intro: exI[of _ "stepper_motor s"])

text \<open>What a handler does to the held block and which calls it makes.\<close>

lemma on_block_begin_shape:
  assumes "on_block_begin K block s = Some (s', acts)"
  shows "(s' = s \<and> acts = []) \<or> (current_block s' = None \<and> acts = [])
         \<or> (current_block s' = Some block
            \<and> (\<exists>d k. acts = [Block_take (block_addr block), Stepper_move d k]))"
proof (cases "enabled s \<and> mode s \<noteq> OFF")
  case False
  then consider "\<not> enabled s" | "enabled s" "mode s = OFF" by blast
  then show ?thesis
  proof cases
    case 1
    with assms show ?thesis by (simp add: on_block_begin_def)
  next
    case 2
    with assms show ?thesis by (auto simp: on_block_begin_def)
  qed
next
  case True
  from assms True obtain n s2 where n: "steps_to_step (advance_position s) = Some n"
    and a: "accumulate_fraction n (advance_position s) = Some s2"
    by (auto simp: on_block_begin_def Let_def split: Option.bind_splits)
  note s2 = accumulate_fraction_carry[OF a]
  have f: "current_block s2 = current_block s" "mode s2 = mode s"
    "stepper_motor s2 = stepper_motor s" "travel_distance s2 = travel_distance s"
    by (subst s2, simp)+
  show ?thesis
  proof (cases "n = 0")
    case z: True
    with assms True n a show ?thesis by (auto simp: on_block_begin_def Let_def)
  next
    case nz: False
    show ?thesis
    proof (cases "mode s = FOLLOW")
      case fl: True
      let ?s4 = "s2\<lparr>current_block := Some block,
             stepper_motor := move (0 < travel_distance s) (nat n) (stepper_motor s)\<rparr>"
      obtain s5 a5 where sc: "on_speed_change K False ?s4 = (s5, a5)"
        by (cases "on_speed_change K False ?s4")
      from on_speed_change_set_speed[OF sc] obtain m5 where
        a5: "a5 = []" and s5: "s5 = ?s4\<lparr>stepper_motor := m5\<rparr>" by blast
      from assms n a nz True fl sc f have r: "s' = set_moved_last_block True s5"
         "acts = [Block_take (block_addr block), Stepper_move (0 < travel_distance s) (nat n)] @ a5"
        by (auto simp: on_block_begin_def Let_def)
      show ?thesis using r a5 s5 by simp
    next
      case nf: False
      with assms n a nz True f show ?thesis
        by (auto simp: on_block_begin_def Let_def split: Option.bind_splits)
    qed
  qed
qed

lemma on_speed_change_shape:
  "on_speed_change K a s = (s', acts) \<Longrightarrow>
     (acts = [] \<and> current_block s' = current_block s)
     \<or> (a \<and> (\<exists>b. current_block s = Some b
               \<and> acts = [Stepper_move False 0, Block_release (block_addr b)])
         \<and> current_block s' = None)"
  by (auto simp: on_speed_change_def split: option.splits if_splits)

lemma finished_move_shape:
  "stepper_motor_finished_move s = (s', acts) \<Longrightarrow>
     (s' = s \<and> acts = [])
     \<or> ((\<exists>b. current_block s = Some b \<and> acts = [Block_release (block_addr b)])
         \<and> current_block s' = None)"
  by (auto simp: stepper_motor_finished_move_def split: option.splits if_splits)

lemma optimize_angle_current_block [simp]:
  "current_block (snd (optimize_angle H a s)) = current_block s"
  by (simp add: optimize_angle_def Let_def case_travel_def)

lemma optimize_angle_current_block_pair:
  "optimize_angle H a s = (r, s') \<Longrightarrow> current_block s' = current_block s"
  using optimize_angle_current_block[of H a s] by simp

lemma execute_extrusion_current_block [simp]:
  "current_block (execute_extrusion H gcode s) = current_block s"
  by (auto simp: execute_extrusion_def Let_def split: prod.splits
      dest: optimize_angle_current_block_pair)

lemma execute_feed_rate_current_block [simp]:
  "current_block (execute_feed_rate K gcode s) = current_block s"
  by (simp add: execute_feed_rate_def Let_def)

lemma on_gcode_execute_shape:
  "on_gcode_execute K H gcode s = (s', acts) \<Longrightarrow>
     current_block s' = current_block s \<and> quiet acts"
  by (auto simp: on_gcode_execute_def Let_def quiet_def
      split: if_splits prod.splits dest: optimize_angle_current_block_pair)

text \<open>The four things an event can do to the held block.\<close>

lemma step_shape:
  assumes "step K H e s = Some (s', acts)"
  shows "(quiet acts \<and> current_block s' = current_block s)
       \<or> (is_block_boundary e \<and> quiet acts \<and> current_block s' = None)
       \<or> (\<exists>block d k. e = Block_begin block
             \<and> acts = [Block_take (block_addr block), Stepper_move d k]
             \<and> current_block s' = Some block)
       \<or> ((e = Stepper_finished \<or> e = Speed_change True)
           \<and> (\<exists>b pre. current_block s = Some b \<and> quiet pre
                 \<and> acts = pre @ [Block_release (block_addr b)])
           \<and> current_block s' = None)"
proof (cases e)
  case (Gcode_execute gcode)
  with assms on_gcode_execute_shape[of K H gcode s s' acts] show ?thesis
    by (simp add: step_def)
next
  case (Block_begin block)
  with assms on_block_begin_shape[of K block s s' acts] show ?thesis
    by (auto simp: step_def quiet_def)
next
  case Block_end
  with assms show ?thesis
    by (auto simp: step_def on_block_end_def quiet_def split: if_splits)
next
  case Stepper_finished
  with assms
    finished_move_shape[of "s\<lparr>stepper_motor := (stepper_motor s)\<lparr>moving := False\<rparr>\<rparr>" s' acts]
  show ?thesis by (auto simp: step_def quiet_def)
next
  case (Speed_change a)
  from on_speed_change_shape[of K a s s' acts] assms Speed_change
  consider "acts = []" "current_block s' = current_block s"
    | b where "a" "current_block s = Some b"
        "acts = [Stepper_move False 0, Block_release (block_addr b)]" "current_block s' = None"
    by (auto simp: step_def)
  then show ?thesis
  proof cases
    case 1
    then show ?thesis by (simp add: quiet_def)
  next
    case 2
    have "quiet [Stepper_move False 0]" by (simp add: quiet_def)
    with 2 Speed_change show ?thesis by (metis append_Cons append_Nil)
  qed
qed

lemma quiet_counts: "quiet acts \<Longrightarrow> claims acts = 0 \<and> releases acts = 0"
  by (induction acts) (auto simp: quiet_def claims_def releases_def)

lemma quiet_track: "quiet acts \<Longrightarrow> track h acts = Some h"
proof (induction acts)
  case Nil
  then show ?case by simp
next
  case (Cons a acts)
  then show ?case by (cases a) (simp_all add: quiet_def)
qed

lemma track_append: "track h (a @ b) = Option.bind (track h a) (\<lambda>h'. track h' b)"
proof (induction a arbitrary: h)
  case Nil
  then show ?case by simp
next
  case (Cons x a)
  then show ?case by (cases x) simp_all
qed

lemma claims_append [simp]: "claims (a @ b) = claims a + claims b"
  by (simp add: claims_def)

lemma releases_append [simp]: "releases (a @ b) = releases a + releases b"
  by (simp add: releases_def)

lemma step_never_negative:
  assumes "step K H e s = Some (s', acts)"
  shows "releases acts + held s' \<le> claims acts + held s"
  using step_shape[OF assms]
  by (auto simp: held_def claims_def releases_def dest!: quiet_counts)

lemma step_balanced:
  assumes "step K H e s = Some (s', acts)"
    and "is_block_boundary e \<longrightarrow> current_block s = None"
  shows "claims acts + held s = releases acts + held s'"
    and "track (map_option block_addr (current_block s)) acts
           = Some (map_option block_addr (current_block s'))"
  using step_shape[OF assms(1)] assms(2)
  by (auto simp: held_def claims_def releases_def track_append quiet_track dest: quiet_counts)

lemma step_release:
  assumes "step K H e s = Some (s', acts)" and "releases acts \<noteq> 0"
  shows "(e = Stepper_finished \<or> e = Speed_change True)
         \<and> (\<exists>b. current_block s = Some b \<and> filter is_release acts = [Block_release (block_addr b)])
         \<and> current_block s' = None"
  using step_shape[OF assms(1)] assms(2)
  by (auto simp: releases_def quiet_def list_all_iff filter_empty_conv dest: quiet_counts)

lemma run_never_negative:
  "run K H evs s = Some (s', acts) \<Longrightarrow> releases acts + held s' \<le> claims acts + held s"
proof (induction evs arbitrary: s s' acts)
  case Nil
  then show ?case by (simp add: claims_def releases_def)
next
  case (Cons e evs)
  from Cons.prems obtain s1 a1 a2 where
    st: "step K H e s = Some (s1, a1)" and r: "run K H evs s1 = Some (s', a2)"
    and a: "acts = a1 @ a2"
    by (auto split: Option.bind_splits)
  show ?case using step_never_negative[OF st] Cons.IH[OF r] by (simp add: a)
qed

lemma run_balanced:
  "run K H evs s = Some (s', acts) \<Longrightarrow> queue_ordered K H evs s \<Longrightarrow>
     claims acts + held s = releases acts + held s'
     \<and> track (map_option block_addr (current_block s)) acts
           = Some (map_option block_addr (current_block s'))"
proof (induction evs arbitrary: s s' acts)
  case Nil
  then show ?case by (simp add: claims_def releases_def)
next
  case (Cons e evs)
  from Cons.prems(1) obtain s1 a1 a2 where
    st: "step K H e s = Some (s1, a1)" and r: "run K H evs s1 = Some (s', a2)"
    and a: "acts = a1 @ a2"
    by (auto split: Option.bind_splits)
  from Cons.prems(2) st have o: "is_block_boundary e \<longrightarrow> current_block s = None"
    and q: "queue_ordered K H evs s1" by simp_all
  show ?case using step_balanced[OF st o] Cons.IH[OF r q] by (simp add: a track_append)
qed

lemma finished_move_releases:
  "enabled t \<Longrightarrow> current_block t = Some b \<Longrightarrow>
     stepper_motor_finished_move t = (t\<lparr>current_block := None\<rparr>, [Block_release (block_addr b)])"
  by (simp add: stepper_motor_finished_move_def)

lemma flush_releases:
  "enabled t \<Longrightarrow> current_block t = Some b \<Longrightarrow> mode t = FOLLOW \<Longrightarrow> moving (stepper_motor t) \<Longrightarrow>
     on_speed_change K True t
       = (t\<lparr>stepper_motor := move False 0 (stepper_motor t), current_block := None\<rparr>,
          [Stepper_move False 0, Block_release (block_addr b)])"
  by (simp add: on_speed_change_def)

text \<open>
  Claim C3, as amended. Over every sequence of command-execute, block-begin, block-end,
  stepper-finished and speed-change events that starts while no block is held, the
  releases never exceed the claims. When the queue raises block-begin and block-end only
  while the axis holds no block, the claims exceed the releases by exactly one while a
  block is held and by nothing otherwise, and takes and releases alternate, every release
  being of the block taken last. A held block is released by \<open>stepper_motor_finished_move\<close>
  (module enabled), which drops the reference and releases that block, and by
  \<open>on_speed_change\<close> with a null argument (module enabled, mode FOLLOW, stepper moving),
  which stops the motor, releases that block and drops the reference. No other event
  releases, and an event that releases releases the held block once and leaves none held.
\<close>

theorem claims_and_releases:
  assumes "run K H evs s = Some (s', acts)" and "current_block s = None"
  shows "releases acts \<le> claims acts
       \<and> (queue_ordered K H evs s \<longrightarrow>
            claims acts = releases acts + (if current_block s' = None then 0 else 1)
            \<and> track None acts = Some (map_option block_addr (current_block s')))
       \<and> (\<forall>t b. enabled t \<and> current_block t = Some b \<longrightarrow>
            stepper_motor_finished_move t
              = (t\<lparr>current_block := None\<rparr>, [Block_release (block_addr b)]))
       \<and> (\<forall>t b. enabled t \<and> current_block t = Some b \<and> mode t = FOLLOW
                 \<and> moving (stepper_motor t) \<longrightarrow>
            on_speed_change K True t
              = (t\<lparr>stepper_motor := move False 0 (stepper_motor t), current_block := None\<rparr>,
                 [Stepper_move False 0, Block_release (block_addr b)]))
       \<and> (\<forall>e t t' a. step K H e t = Some (t', a) \<and> releases a \<noteq> 0 \<longrightarrow>
            (e = Stepper_finished \<or> e = Speed_change True)
            \<and> (\<exists>b. current_block t = Some b
                  \<and> filter is_release a = [Block_release (block_addr b)])
            \<and> current_block t' = None)"
proof -
  have never: "releases acts \<le> claims acts"
    using run_never_negative[OF assms(1)] assms(2) by (simp add: held_def)
  have ordered: "queue_ordered K H evs s \<longrightarrow>
            claims acts = releases acts + (if current_block s' = None then 0 else 1)
            \<and> track None acts = Some (map_option block_addr (current_block s'))"
    using run_balanced[OF assms(1)] assms(2) by (auto simp: held_def)
  show ?thesis
    using never ordered finished_move_releases flush_releases step_release by blast
qed

theorem claims_and_releases_witness:
  "\<exists>s' acts.
     run scenario_kernel scenario_header
       [Gcode_execute (G 1 [(CHR ''E'', 90)] 0), Block_begin scenario_block,
        Stepper_finished, Block_end,
        Gcode_execute (G 1 [(CHR ''E'', 200)] 0), Block_begin scenario_block]
       scenario_extruder = Some (s', acts)
     \<and> current_block scenario_extruder = None
     \<and> queue_ordered scenario_kernel scenario_header
         [Gcode_execute (G 1 [(CHR ''E'', 90)] 0), Block_begin scenario_block,
          Stepper_finished, Block_end,
          Gcode_execute (G 1 [(CHR ''E'', 200)] 0), Block_begin scenario_block]
         scenario_extruder
     \<and> current_block s' = Some scenario_block
     \<and> claims acts = 2 \<and> releases acts = 1
     \<and> claims acts = releases acts + (if current_block s' = None then 0 else 1)
     \<and> track None acts = Some (Some 1)
     \<and> enabled s'
     \<and> stepper_motor_finished_move s' = (s'\<lparr>current_block := None\<rparr>, [Block_release 1])"
proof -
  let ?evs = "[Gcode_execute (G 1 [(CHR ''E'', 90)] 0), Block_begin scenario_block,
        Stepper_finished, Block_end,
        Gcode_execute (G 1 [(CHR ''E'', 200)] 0), Block_begin scenario_block]"
  have ex: "map_option (\<lambda>x. (enabled (fst x), current_block (fst x), snd x))
              (run scenario_kernel scenario_header ?evs scenario_extruder)
            = Some (True, Some scenario_block,
                    [En_pin_set False, Block_take 1, Stepper_move True 450, Block_release 1,
                     En_pin_set False, Block_take 1, Stepper_move False 350])"
    by (simp add: scenario_defs block_defs angle_defs gcode_defs step_def Let_def
        cong: bind_weak_cong let_weak_cong)
  then obtain s' acts where
    r: "run scenario_kernel scenario_header ?evs scenario_extruder = Some (s', acts)"
    and en: "enabled s'"
    and cb: "current_block s' = Some scenario_block"
    and a: "acts = [En_pin_set False, Block_take 1, Stepper_move True 450, Block_release 1,
                     En_pin_set False, Block_take 1, Stepper_move False 350]"
    by auto
  have n: "current_block scenario_extruder = None" by (simp add: scenario_defs)
  have q: "queue_ordered scenario_kernel scenario_header ?evs scenario_extruder"
    by (simp add: scenario_defs block_defs angle_defs gcode_defs step_def Let_def
        cong: bind_weak_cong let_weak_cong)
  have cnt: "claims acts = 2" "releases acts = 1" by (simp_all add: a claims_def releases_def)
  note cr = claims_and_releases[OF r n]
  from cr q
  have bal: "claims acts = releases acts + (if current_block s' = None then 0 else 1)"
    and tr: "track None acts = Some (map_option block_addr (current_block s'))" by blast+
  from cr en cb
  have fin: "stepper_motor_finished_move s'
               = (s'\<lparr>current_block := None\<rparr>, [Block_release (block_addr scenario_block)])"
    by blast
  have ad: "block_addr scenario_block = 1" by (simp add: scenario_defs)
  have tr1: "track None acts = Some (Some 1)" using tr cb ad by simp
  have fin1: "stepper_motor_finished_move s' = (s'\<lparr>current_block := None\<rparr>, [Block_release 1])"
    using fin ad by simp
  show ?thesis
    by (rule exI[of _ s'], rule exI[of _ acts]) (intro conjI r n q cb cnt bal tr1 en fin1)
qed

text \<open>
  The claim as stated fails when a block ends while it is held: \<open>on_block_end\<close> drops the
  reference without a release, the stepper-finished callback then finds no block to
  release, and the next block is claimed on top of the first. After the events below two
  claims stand against no release.
\<close>

theorem block_end_while_held_counterexample:
  "current_block scenario_extruder = None
   \<and> map_option (claims \<circ> snd)
        (run scenario_kernel scenario_header
           [Gcode_execute (G 1 [(CHR ''E'', 90)] 0), Block_begin scenario_block, Block_end,
            Stepper_finished,
            Gcode_execute (G 1 [(CHR ''E'', 200)] 0), Block_begin scenario_block]
           scenario_extruder) = Some 2
   \<and> map_option (releases \<circ> snd)
        (run scenario_kernel scenario_header
           [Gcode_execute (G 1 [(CHR ''E'', 90)] 0), Block_begin scenario_block, Block_end,
            Stepper_finished,
            Gcode_execute (G 1 [(CHR ''E'', 200)] 0), Block_begin scenario_block]
           scenario_extruder) = Some 0"
  by (simp add: scenario_defs block_defs angle_defs gcode_defs step_def Let_def
      claims_def releases_def cong: bind_weak_cong let_weak_cong)

subsection \<open>The speed of a following axis\<close>

text \<open>
  Claim C6. In FOLLOW mode, the module enabled, with a claimed block and a moving
  stepper, \<open>on_speed_change\<close> with an argument that is not null sets the speed of the
  stepper to the trapezoid-adjusted rate of the primary axes times the quotient of the
  steps this axis has to move by the step event count of the block (a count other than
  zero); for the rate 2000, 100 steps to move and a step event count of 400 the speed is
  500.
\<close>

theorem on_speed_change_follow_speed:
  assumes "enabled s" and "mode s = FOLLOW" and "current_block s = Some block"
    and "moving (stepper_motor s)" and "0 < steps_event_count block"
  shows "steps_per_second (stepper_motor (fst (on_speed_change K False s)))
           = trapezoid_adjusted_rate K
               * (real (steps_to_move (stepper_motor s)) / real (steps_event_count block))
         \<and> (trapezoid_adjusted_rate K = 2000 \<and> steps_to_move (stepper_motor s) = 100
              \<and> steps_event_count block = 400
            \<longrightarrow> steps_per_second (stepper_motor (fst (on_speed_change K False s))) = 500)"
  using assms by (simp add: on_speed_change_def set_speed_def)

theorem on_speed_change_follow_speed_witness:
  "enabled (scenario_extruder\<lparr>mode := FOLLOW, current_block := Some scenario_block,
       stepper_motor := idle_motor\<lparr>moving := True, steps_to_move := 100\<rparr>\<rparr>)
   \<and> steps_per_second (stepper_motor (fst (on_speed_change scenario_kernel False
       (scenario_extruder\<lparr>mode := FOLLOW, current_block := Some scenario_block,
          stepper_motor := idle_motor\<lparr>moving := True, steps_to_move := 100\<rparr>\<rparr>)))) = 500"
proof -
  let ?s = "scenario_extruder\<lparr>mode := FOLLOW, current_block := Some scenario_block,
       stepper_motor := idle_motor\<lparr>moving := True, steps_to_move := 100\<rparr>\<rparr>"
  have h: "enabled ?s" "mode ?s = FOLLOW" "current_block ?s = Some scenario_block"
    "moving (stepper_motor ?s)" "0 < steps_event_count scenario_block"
    by (simp_all add: scenario_defs)
  show ?thesis using h on_speed_change_follow_speed[OF h, of scenario_kernel]
    by (simp add: scenario_defs)
qed

subsection \<open>Firmware retract\<close>

text \<open>
  Claim C9. A G10 received while \<open>retracted\<close> is set changes nothing and calls nothing, and
  so does a G11 received while \<open>retracted\<close> is clear. A G10 for this module (enabled, no L
  word) received while \<open>retracted\<close> is clear sets \<open>retracted\<close> and clears
  \<open>cancel_zlift_restore\<close>, and nothing else in the object; a G11 for this module received
  while \<open>retracted\<close> is set clears \<open>retracted\<close>, and nothing else. So alternating retract
  and un-retract commands toggle the flag once per command.
\<close>

theorem retract_commands:
  assumes "\<not> has_m gcode" and "has_g gcode"
  shows "(g gcode = 10 \<and> retracted s \<longrightarrow> on_gcode_received H E gcode s = Some (s, []))
       \<and> (g gcode = 11 \<and> \<not> retracted s \<longrightarrow> on_gcode_received H E gcode s = Some (s, []))
       \<and> (enabled s \<and> \<not> has_letter gcode CHR ''L'' \<and> g gcode = 10 \<and> \<not> retracted s \<longrightarrow>
            map_option fst (on_gcode_received H E gcode s)
              = Some (s\<lparr>retracted := True, cancel_zlift_restore := False\<rparr>))
       \<and> (enabled s \<and> \<not> has_letter gcode CHR ''L'' \<and> g gcode = 11 \<and> retracted s \<longrightarrow>
            map_option fst (on_gcode_received H E gcode s) = Some (s\<lparr>retracted := False\<rparr>))"
  using assms
  by (auto simp: on_gcode_received_def received_g_def milestone_g_def Let_def)

theorem retract_commands_witness:
  "\<not> has_m (G 10 [] 0) \<and> has_g (G 10 [] 0) \<and> \<not> has_m (G 11 [] 0) \<and> has_g (G 11 [] 0)
   \<and> enabled scenario_extruder \<and> \<not> retracted scenario_extruder
   \<and> on_gcode_received scenario_header scenario_home_env (G 11 [] 0) scenario_extruder
       = Some (scenario_extruder, [])
   \<and> map_option fst
        (on_gcode_received scenario_header scenario_home_env (G 10 [] 0) scenario_extruder)
       = Some (scenario_extruder\<lparr>retracted := True, cancel_zlift_restore := False\<rparr>)
   \<and> on_gcode_received scenario_header scenario_home_env (G 10 [] 0)
        (scenario_extruder\<lparr>retracted := True\<rparr>)
       = Some (scenario_extruder\<lparr>retracted := True\<rparr>, [])
   \<and> map_option fst
        (on_gcode_received scenario_header scenario_home_env (G 11 [] 0)
           (scenario_extruder\<lparr>retracted := True\<rparr>))
       = Some (scenario_extruder\<lparr>retracted := False\<rparr>)"
proof -
  have h: "\<not> has_m (G 10 [] 0)" "has_g (G 10 [] 0)" "\<not> has_m (G 11 [] 0)" "has_g (G 11 [] 0)"
    by (simp_all add: G_def)
  have e: "enabled scenario_extruder" "\<not> retracted scenario_extruder"
    "g (G 10 [] 0) = 10" "g (G 11 [] 0) = 11"
    "\<not> has_letter (G 10 [] 0) CHR ''L''" "\<not> has_letter (G 11 [] 0) CHR ''L''"
    by (simp_all add: scenario_defs has_letter_def)
  show ?thesis
    using h e
      retract_commands[OF h(1,2), of scenario_extruder scenario_header scenario_home_env]
      retract_commands[OF h(3,4), of scenario_extruder scenario_header scenario_home_env]
      retract_commands[OF h(1,2), of "scenario_extruder\<lparr>retracted := True\<rparr>" scenario_header scenario_home_env]
      retract_commands[OF h(3,4), of "scenario_extruder\<lparr>retracted := True\<rparr>" scenario_header scenario_home_env]
    by simp
qed

subsection \<open>Homing\<close>

text \<open>
  Claim C5 says that a sweep with the threshold 360 and the increment 10 collects exactly
  36 samples. The loop runs while \<open>current_search_angle \<le> DEGREE_OF_CYCLE\<close>, so it also
  runs at 360: with no halt and every move ending, 37 samples are collected (the sweep
  covers 370 degrees). With the peak at index 18 the home angle is 180 and the final move
  is of \<open>180 * steps_per_angle = 900\<close> steps, as the claim says.
\<close>

theorem do_home_collects_37_samples:
  "map_option (length \<circ> samples_of \<circ> fst)
     (do_home scenario_header scenario_home_env scenario_extruder) = Some 37
   \<and> map_option (max_element \<circ> samples_of \<circ> fst)
       (do_home scenario_header scenario_home_env scenario_extruder) = Some 18
   \<and> map_option (home_angle_of \<circ> fst)
       (do_home scenario_header scenario_home_env scenario_extruder) = Some (Some 180)
   \<and> map_option (last \<circ> snd \<circ> snd)
       (do_home scenario_header scenario_home_env scenario_extruder)
       = Some (Stepper_move True 900)"
  by (simp add: scenario_defs block_defs do_home_def find_zero_angle.simps max_element_def
      move_at_def samples_of_def home_angle_of_def Let_def)

end
